theory Spec2Isabelle
  imports Main "HOL-Library.Word"
begin

section \<open>Memory: pointers, blocks, allocation and copying\<close>

text \<open>
  The Data hierarchy of \<^verbatim>\<open>data.cpp\<close> hands out raw pointers (\<^verbatim>\<open>bytes()\<close>), allocates
  with \<^verbatim>\<open>new char[n]\<close> and copies with \<^verbatim>\<open>std::memcpy\<close>. The memory is modelled as a
  sequence of blocks: every \<^verbatim>\<open>new[]\<close> creates one block, and memory owned by a caller
  is a block as well. A pointer is null, the address of the string literal \<^verbatim>\<open>""\<close> in
  static storage, or a block number with an offset into the block. A cell of a block
  holds a byte, or nothing while it is still uninitialised.

  The source writes the literal \<^verbatim>\<open>""\<close> in more than one place; whether these share an
  address is unspecified in C++, and nothing below depends on it.
\<close>

type_synonym byte = "8 word"

datatype ptr = nullptr | empty_literal | Ptr nat nat

record heap =
  blocks :: "byte option list list"

text \<open>Pointer arithmetic \<^verbatim>\<open>p + n\<close>, as in \<^verbatim>\<open>storage.get()[bytes.size()]\<close>.\<close>

fun ptr_add :: "ptr \<Rightarrow> nat \<Rightarrow> ptr" where
  "ptr_add (Ptr b i) n = Ptr b (i + n)"
| "ptr_add p n = p"

text \<open>
  Reading \<open>n\<close> bytes at a pointer. \<open>None\<close> is undefined behaviour: a null pointer, a range
  that leaves its block, or a cell that was never written.
\<close>

fun load_bytes :: "heap \<Rightarrow> ptr \<Rightarrow> nat \<Rightarrow> byte list option" where
  "load_bytes h nullptr n = None"
| "load_bytes h empty_literal n =
     (if n = 0 then Some [] else if n = 1 then Some [0] else None)"
| "load_bytes h (Ptr b i) n =
     (if b < length (blocks h) \<and> i + n \<le> length (blocks h ! b)
      then those (take n (drop i (blocks h ! b)))
      else None)"

text \<open>Writing bytes at a pointer. Only blocks are writable; the literal is read-only.\<close>

fun store_bytes :: "heap \<Rightarrow> ptr \<Rightarrow> byte list \<Rightarrow> heap option" where
  "store_bytes h (Ptr b i) bs =
     (if b < length (blocks h) \<and> i + length bs \<le> length (blocks h ! b)
      then Some (h\<lparr>blocks := (blocks h)
             [b := take i (blocks h ! b) @ map Some bs @ drop (i + length bs) (blocks h ! b)]\<rparr>)
      else None)"
| "store_bytes h p bs = None"

text \<open>
  \<^verbatim>\<open>new char[n]\<close>: a fresh block of \<open>n\<close> uninitialised cells, and the pointer to its
  start. \<^verbatim>\<open>new char[0]\<close> yields a non-null pointer to a block of no cells. Running out
  of memory (\<^verbatim>\<open>std::bad_alloc\<close>) is outside the model: the heap is unbounded. Sizes
  are natural numbers: a span of \<^verbatim>\<open>SIZE_MAX\<close> bytes does not fit an address space, so
  \<^verbatim>\<open>bytes.size() + 1\<close> does not wrap on a span that exists.
\<close>

definition new_array :: "heap \<Rightarrow> nat \<Rightarrow> heap \<times> ptr" where
  "new_array h n =
     (h\<lparr>blocks := blocks h @ [replicate n None]\<rparr>, Ptr (length (blocks h)) 0)"

text \<open>Two ranges of \<open>n\<close> bytes overlap.\<close>

fun overlap :: "ptr \<Rightarrow> ptr \<Rightarrow> nat \<Rightarrow> bool" where
  "overlap (Ptr b i) (Ptr c j) n = (b = c \<and> i < j + n \<and> j < i + n)"
| "overlap p q n = False"

text \<open>
  \<^verbatim>\<open>std::memcpy(dst, src, n)\<close>. \<open>None\<close> is undefined behaviour: a source that cannot be
  read, a destination that cannot be written, or overlapping ranges.
\<close>

definition memcpy :: "heap \<Rightarrow> ptr \<Rightarrow> ptr \<Rightarrow> nat \<Rightarrow> heap option" where
  "memcpy h dst src n =
     (case load_bytes h src n of
        None \<Rightarrow> None
      | Some bs \<Rightarrow> if overlap dst src n then None else store_bytes h dst bs)"

text \<open>
  \<^verbatim>\<open>std::strlen\<close>, which the conversion of a \<^verbatim>\<open>const char*\<close> to a
  \<^verbatim>\<open>std::string_view\<close> calls: the number of bytes before the first zero byte; \<open>None\<close>
  (undefined behaviour) when the block ends or an uninitialised cell comes first.
\<close>

fun strlen :: "heap \<Rightarrow> ptr \<Rightarrow> nat option" where
  "strlen h nullptr = None"
| "strlen h empty_literal = Some 0"
| "strlen h (Ptr b i) =
     (if b < length (blocks h) \<and> i \<le> length (blocks h ! b)
      then (let cs = takeWhile (\<lambda>c. c \<noteq> Some 0) (drop i (blocks h ! b))
            in if length cs < length (blocks h ! b) - i \<and> None \<notin> set cs
               then Some (length cs) else None)
      else None)"

section \<open>The Data hierarchy of data.cpp\<close>

text \<open>
  \<^verbatim>\<open>Data_format\<close> (\<^verbatim>\<open>Format\<close> inside the classes) is an enumeration; the source also
  builds the value \<^verbatim>\<open>Format{-1}\<close>, which is no enumerator, so a format is modelled by
  its integer.
\<close>

type_synonym Format = int

text \<open>
  Modelled from the spec: the enumerators of \<^verbatim>\<open>Data_format\<close> are declared in a header
  that is not part of the sources. The spec names the two wire formats, "text or binary";
  they get the format codes 0 and 1 of PostgreSQL. No theorem depends on the two numbers.
\<close>

definition Format_text :: Format where
  "Format_text = 0"

definition Format_binary :: Format where
  "Format_binary = 1"

text \<open>
  \<^verbatim>\<open>std::string_view\<close>: a pointer and a length. \<^verbatim>\<open>std::string\<close>: the address of its
  character buffer (what \<^verbatim>\<open>data()\<close> returns) and its length.
\<close>

record string_view =
  sv_data :: ptr
  sv_size :: nat

record std_string =
  str_data :: ptr
  str_size :: nat

text \<open>
  The members of a \<^verbatim>\<open>Data_view\<close>. A name cannot end in an underscore here, so the
  member \<^verbatim>\<open>format_\<close> of the source is written \<open>m_format\<close>, and so on for every member.
\<close>

record view =
  m_format :: Format
  m_data :: string_view

text \<open>
  The four final classes derived from \<^verbatim>\<open>Data\<close>, each with its members:
  \<^verbatim>\<open>container_Data<std::string>\<close> (format, storage), \<^verbatim>\<open>memory_Data\<close> (format, size,
  the pointer its \<^verbatim>\<open>unique_ptr\<close> owns), \<^verbatim>\<open>empty_Data\<close> (format) and \<^verbatim>\<open>Data_view\<close>.
\<close>

datatype Data =
    container_Data Format std_string
  | memory_Data Format nat ptr
  | empty_Data Format
  | Data_view view

text \<open>
  Modelled from the spec: the default member initialisers of \<^verbatim>\<open>Data_view\<close> are in
  \<^verbatim>\<open>data.hpp\<close>, which is not part of the sources. The spec: a default-constructed view
  is invalid, its "format left in a sentinel invalid state, zero-length", and an empty
  Data's \<^verbatim>\<open>bytes()\<close> "points at a valid, if zero-length, terminator". The sentinel format
  is the \<^verbatim>\<open>Format{-1}\<close> that the move constructor of \<^verbatim>\<open>data.cpp\<close> writes.
\<close>

definition Data_view_default :: view where
  "Data_view_default =
     \<lparr>m_format = - 1, m_data = \<lparr>sv_data = empty_literal, sv_size = 0\<rparr>\<rparr>"

subsection \<open>The virtual member functions\<close>

text \<open>
  Modelled from the spec: the accessors of \<^verbatim>\<open>Data_view\<close> are defined in \<^verbatim>\<open>data.hpp\<close>,
  which is not part of the sources. The spec: a view "borrows; owns nothing", its backing
  is "externally managed bytes + size". So the accessors return the members, as
  \<^verbatim>\<open>Data_view::to_data\<close> of \<^verbatim>\<open>data.cpp\<close> reads them (\<^verbatim>\<open>data_.size()\<close>, \<^verbatim>\<open>data_.data()\<close>,
  \<^verbatim>\<open>format_\<close>).
\<close>

fun Data_view_format :: "view \<Rightarrow> Format" where
  "Data_view_format v = m_format v"

fun Data_view_size :: "view \<Rightarrow> nat" where
  "Data_view_size v = sv_size (m_data v)"

fun Data_view_is_empty :: "view \<Rightarrow> bool" where
  "Data_view_is_empty v = (sv_size (m_data v) = 0)"

fun Data_view_bytes :: "view \<Rightarrow> ptr" where
  "Data_view_bytes v = sv_data (m_data v)"

text \<open>
  The virtual functions of \<^verbatim>\<open>Data\<close>, by class. For \<^verbatim>\<open>container_Data\<close>, \<^verbatim>\<open>memory_Data\<close>
  and \<^verbatim>\<open>empty_Data\<close> these are the bodies of \<^verbatim>\<open>data.cpp\<close>.
\<close>

fun format :: "Data \<Rightarrow> Format" where
  "format (container_Data f s) = f"
| "format (memory_Data f n p) = f"
| "format (empty_Data f) = f"
| "format (Data_view v) = Data_view_format v"

fun size_Data :: "Data \<Rightarrow> nat" where
  "size_Data (container_Data f s) = str_size s"
| "size_Data (memory_Data f n p) = n"
| "size_Data (empty_Data f) = 0"
| "size_Data (Data_view v) = Data_view_size v"

fun is_empty_Data :: "Data \<Rightarrow> bool" where
  "is_empty_Data (container_Data f s) = (str_size s = 0)"
| "is_empty_Data (memory_Data f n p) = (size_Data (memory_Data f n p) = 0)"
| "is_empty_Data (empty_Data f) = True"
| "is_empty_Data (Data_view v) = Data_view_is_empty v"

fun bytes :: "Data \<Rightarrow> ptr" where
  "bytes (container_Data f s) = str_data s"
| "bytes (memory_Data f n p) = (if p \<noteq> nullptr then p else empty_literal)"
| "bytes (empty_Data f) = empty_literal"
| "bytes (Data_view v) = Data_view_bytes v"

text \<open>\<^verbatim>\<open>Data::is_invariant_ok\<close>.\<close>

definition is_invariant_ok :: "Data \<Rightarrow> bool" where
  "is_invariant_ok d =
     (let size_ok = ((size_Data d = 0) = is_empty_Data d);
          empty_ok = (\<not> is_empty_Data d \<or> (size_Data d = 0 \<and> bytes d \<noteq> nullptr))
      in size_ok \<and> empty_ok)"

subsection \<open>Constructors\<close>

text \<open>
  What can go wrong is a value: a failing \<^verbatim>\<open>assert\<close>, or undefined behaviour (a read or
  write through a pointer that does not allow it). A function that can fail returns
  \<open>fault + result\<close>, with \<open>Inl\<close> for the fault.
\<close>

datatype fault = Assertion_failed | Undefined_behaviour

text \<open>\<^verbatim>\<open>assert(is_invariant_ok())\<close>, the last statement of every constructor below.\<close>

definition assert_invariant :: "Data \<Rightarrow> fault + Data" where
  "assert_invariant d = (if is_invariant_ok d then Inr d else Inl Assertion_failed)"

definition container_Data_ctor :: "std_string \<Rightarrow> Format \<Rightarrow> fault + Data" where
  "container_Data_ctor storage f = assert_invariant (container_Data f storage)"

definition memory_Data_ctor :: "ptr \<Rightarrow> nat \<Rightarrow> Format \<Rightarrow> fault + Data" where
  "memory_Data_ctor storage n f = assert_invariant (memory_Data f n storage)"

definition empty_Data_ctor :: "Format \<Rightarrow> fault + Data" where
  "empty_Data_ctor f = assert_invariant (empty_Data f)"

text \<open>
  The constructors of \<^verbatim>\<open>Data_view\<close>. Each is split in two: the members after the body
  (\<open>_init\<close>), and the assertion on them. A build with \<^verbatim>\<open>NDEBUG\<close> runs the first part
  only.
\<close>

definition Data_view_init_cstr :: "heap \<Rightarrow> ptr \<Rightarrow> fault + view" where
  "Data_view_init_cstr h p =
     (if p \<noteq> nullptr
      then (case strlen h p of
              None \<Rightarrow> Inl Undefined_behaviour
            | Some n \<Rightarrow> Inr \<lparr>m_format = Format_text, m_data = \<lparr>sv_data = p, sv_size = n\<rparr>\<rparr>)
      else Inr Data_view_default)"

definition Data_view_init :: "ptr \<Rightarrow> nat \<Rightarrow> Format \<Rightarrow> view" where
  "Data_view_init p n f =
     (if p \<noteq> nullptr
      then \<lparr>m_format = f, m_data = \<lparr>sv_data = p, sv_size = n\<rparr>\<rparr>
      else Data_view_default)"

definition assert_view :: "view \<Rightarrow> fault + view" where
  "assert_view v = (if is_invariant_ok (Data_view v) then Inr v else Inl Assertion_failed)"

text \<open>\<^verbatim>\<open>Data_view::Data_view(const char*)\<close>.\<close>

definition Data_view_ctor_cstr :: "heap \<Rightarrow> ptr \<Rightarrow> fault + view" where
  "Data_view_ctor_cstr h p =
     (case Data_view_init_cstr h p of Inl e \<Rightarrow> Inl e | Inr v \<Rightarrow> assert_view v)"

text \<open>\<^verbatim>\<open>Data_view::Data_view(const char*, std::size_t, Format)\<close>.\<close>

definition Data_view_ctor :: "ptr \<Rightarrow> nat \<Rightarrow> Format \<Rightarrow> fault + view" where
  "Data_view_ctor p n f = assert_view (Data_view_init p n f)"

text \<open>\<^verbatim>\<open>Data_view::Data_view(const Data&)\<close>, which delegates to the constructor above.\<close>

definition Data_view_of_Data :: "Data \<Rightarrow> fault + view" where
  "Data_view_of_Data d = Data_view_ctor (bytes d) (size_Data d) (format d)"

text \<open>
  \<^verbatim>\<open>Data_view::Data_view(Data_view&&)\<close>: the new object and the source afterwards.
  Moving a \<^verbatim>\<open>std::string_view\<close> copies it, so \<^verbatim>\<open>rhs.data_\<close> stays as it was; the body
  assigns \<^verbatim>\<open>rhs.format_\<close> only.
\<close>

definition Data_view_move_ctor :: "view \<Rightarrow> view \<times> view" where
  "Data_view_move_ctor rhs =
     (\<lparr>m_format = m_format rhs, m_data = m_data rhs\<rparr>, rhs\<lparr>m_format := - 1\<rparr>)"

text \<open>\<^verbatim>\<open>Data_view::swap\<close>: this object and \<open>rhs\<close> afterwards.\<close>

definition swap_view :: "view \<Rightarrow> view \<Rightarrow> view \<times> view" where
  "swap_view this rhs =
     (this\<lparr>m_format := m_format rhs, m_data := m_data rhs\<rparr>,
      rhs\<lparr>m_format := m_format this, m_data := m_data this\<rparr>)"

text \<open>
  \<^verbatim>\<open>Data_view::operator=(Data_view&&)\<close> compares the addresses of its two operands, so
  it is modelled on a store of objects, by address. The temporary \<^verbatim>\<open>tmp\<close> is destroyed
  at the end of the block.
\<close>

definition Data_view_move_assign :: "(nat \<Rightarrow> view) \<Rightarrow> nat \<Rightarrow> nat \<Rightarrow> (nat \<Rightarrow> view)" where
  "Data_view_move_assign st this rhs =
     (if this \<noteq> rhs
      then (let (tmp, rhs') = Data_view_move_ctor (st rhs);
                st1 = st(rhs := rhs');
                (this', tmp') = swap_view (st1 this) tmp
            in st1(this := this'))
      else st)"

subsection \<open>Factories\<close>

text \<open>
  \<^verbatim>\<open>Data::make(std::string&&, Data_format)\<close>: the string is moved into the object, no
  byte is copied. \<open>storage\<close> is the string as the new object holds it.
\<close>

definition Data_make_string :: "std_string \<Rightarrow> Format \<Rightarrow> fault + Data" where
  "Data_make_string storage f = container_Data_ctor storage f"

text \<open>\<^verbatim>\<open>Data::make(std::unique_ptr<void, void(*)(void*)>&&, std::size_t, Data_format)\<close>.\<close>

definition Data_make_memory :: "ptr \<Rightarrow> nat \<Rightarrow> Format \<Rightarrow> fault + Data" where
  "Data_make_memory storage n f =
     (if storage \<noteq> nullptr then memory_Data_ctor storage n f else Inl Assertion_failed)"

text \<open>\<^verbatim>\<open>Data::make(std::string_view, Data_format)\<close>.\<close>

definition Data_make :: "heap \<Rightarrow> string_view \<Rightarrow> Format \<Rightarrow> fault + heap \<times> Data" where
  "Data_make h bs f =
     (if sv_size bs > 0
      then (let (h1, storage) = new_array h (sv_size bs + 1)
            in case memcpy h1 storage (sv_data bs) (sv_size bs) of
                 None \<Rightarrow> Inl Undefined_behaviour
               | Some h2 \<Rightarrow>
                   (case store_bytes h2 (ptr_add storage (sv_size bs)) [0] of
                      None \<Rightarrow> Inl Undefined_behaviour
                    | Some h3 \<Rightarrow>
                        (case memory_Data_ctor storage (sv_size bs) f of
                           Inl e \<Rightarrow> Inl e
                         | Inr d \<Rightarrow> Inr (h3, d))))
      else (case empty_Data_ctor f of Inl e \<Rightarrow> Inl e | Inr d \<Rightarrow> Inr (h, d)))"

text \<open>\<^verbatim>\<open>Data::make_no_copy\<close>.\<close>

definition Data_make_no_copy :: "heap \<Rightarrow> string_view \<Rightarrow> Format \<Rightarrow> fault + heap \<times> Data" where
  "Data_make_no_copy h bs f =
     (if sv_size bs > 0
      then (case Data_view_ctor (sv_data bs) (sv_size bs) f of
              Inl e \<Rightarrow> Inl e
            | Inr v \<Rightarrow> Inr (h, Data_view v))
      else (case empty_Data_ctor f of Inl e \<Rightarrow> Inl e | Inr d \<Rightarrow> Inr (h, d)))"

subsection \<open>Deep copies\<close>

text \<open>
  The copy constructor of \<^verbatim>\<open>std::string\<close>, which \<^verbatim>\<open>container_Data::to_data\<close> calls: a new
  buffer with the characters and their terminator.
\<close>

definition std_string_copy :: "heap \<Rightarrow> std_string \<Rightarrow> fault + heap \<times> std_string" where
  "std_string_copy h s =
     (let (h1, p) = new_array h (str_size s + 1)
      in case memcpy h1 p (str_data s) (str_size s + 1) of
           None \<Rightarrow> Inl Undefined_behaviour
         | Some h2 \<Rightarrow> Inr (h2, \<lparr>str_data = p, str_size = str_size s\<rparr>))"

text \<open>\<^verbatim>\<open>Data_view::to_data\<close>.\<close>

definition Data_view_to_data :: "heap \<Rightarrow> view \<Rightarrow> fault + heap \<times> Data" where
  "Data_view_to_data h v =
     (let sz = sv_size (m_data v);
          (h1, storage) = new_array h sz
      in case memcpy h1 storage (sv_data (m_data v)) sz of
           None \<Rightarrow> Inl Undefined_behaviour
         | Some h2 \<Rightarrow>
             (case memory_Data_ctor storage sz (m_format v) of
                Inl e \<Rightarrow> Inl e
              | Inr d \<Rightarrow> Inr (h2, d)))"

text \<open>
  \<^verbatim>\<open>to_data\<close> (the spec's \<open>deep_copy\<close>), by class. \<^verbatim>\<open>memory_Data::to_data\<close> passes the
  owned pointer itself (\<^verbatim>\<open>storage_.get()\<close>), not \<^verbatim>\<open>bytes()\<close>.
\<close>

fun to_data :: "heap \<Rightarrow> Data \<Rightarrow> fault + heap \<times> Data" where
  "to_data h (container_Data f s) =
     (case std_string_copy h s of
        Inl e \<Rightarrow> Inl e
      | Inr (h1, s1) \<Rightarrow>
          (case container_Data_ctor s1 f of Inl e \<Rightarrow> Inl e | Inr d \<Rightarrow> Inr (h1, d)))"
| "to_data h (memory_Data f n p) = Data_make h \<lparr>sv_data = p, sv_size = n\<rparr> f"
| "to_data h (empty_Data f) =
     (case empty_Data_ctor f of Inl e \<Rightarrow> Inl e | Inr d \<Rightarrow> Inr (h, d))"
| "to_data h (Data_view v) = Data_view_to_data h v"

subsection \<open>The instances of Data\<close>

text \<open>
  Every way \<^verbatim>\<open>data.cpp\<close> brings a Data object into a state: the constructors of the four
  classes, with any arguments, and the move constructor, \<^verbatim>\<open>swap\<close> and the move
  assignment of \<^verbatim>\<open>Data_view\<close>, which change objects that exist. The assertions of the
  constructors are left out, so these are the objects of a build with \<^verbatim>\<open>NDEBUG\<close> too.
  \<^verbatim>\<open>Data_view(const Data&)\<close> delegates to the three-argument constructor, and the
  factories and \<^verbatim>\<open>to_data\<close> build their results with these constructors. For
  \<^verbatim>\<open>container_Data<std::string>\<close> the premise is the guarantee of the C++ standard that
  \<^verbatim>\<open>std::string::data()\<close> is never null.
\<close>

inductive Data_instance :: "Data \<Rightarrow> bool" where
  container: "str_data s \<noteq> nullptr \<Longrightarrow> Data_instance (container_Data f s)"
| memory: "Data_instance (memory_Data f n p)"
| empty: "Data_instance (empty_Data f)"
| view_default: "Data_instance (Data_view Data_view_default)"
| view_cstr: "Data_view_init_cstr h p = Inr v \<Longrightarrow> Data_instance (Data_view v)"
| view_init: "Data_instance (Data_view (Data_view_init p n f))"
| view_move_to:
    "Data_instance (Data_view v) \<Longrightarrow> Data_instance (Data_view (fst (Data_view_move_ctor v)))"
| view_move_from:
    "Data_instance (Data_view v) \<Longrightarrow> Data_instance (Data_view (snd (Data_view_move_ctor v)))"
| view_swap_this:
    "Data_instance (Data_view a) \<Longrightarrow> Data_instance (Data_view b) \<Longrightarrow>
     Data_instance (Data_view (fst (swap_view a b)))"
| view_swap_rhs:
    "Data_instance (Data_view a) \<Longrightarrow> Data_instance (Data_view b) \<Longrightarrow>
     Data_instance (Data_view (snd (swap_view a b)))"
| view_assign:
    "Data_instance (Data_view (st a)) \<Longrightarrow> Data_instance (Data_view (st b)) \<Longrightarrow>
     r = a \<or> r = b \<Longrightarrow>
     Data_instance (Data_view (Data_view_move_assign st a b r))"

text \<open>The pointers an instance is made of: they are never null.\<close>

fun pointers_ok :: "Data \<Rightarrow> bool" where
  "pointers_ok (container_Data f s) = (str_data s \<noteq> nullptr)"
| "pointers_ok (memory_Data f n p) = True"
| "pointers_ok (empty_Data f) = True"
| "pointers_ok (Data_view v) = (sv_data (m_data v) \<noteq> nullptr)"

section \<open>The connection pool of connection_pool.hpp\<close>

text \<open>
  A \<^verbatim>\<open>Connection\<close> is opaque: a value of any type \<open>'c\<close>. A
  \<^verbatim>\<open>std::unique_ptr<Connection>\<close> is an optional connection, a \<^verbatim>\<open>Connection_pool*\<close> an
  optional address of a pool, and a \<^verbatim>\<open>std::function<void(Connection&)>\<close> an optional
  function on connections (the connection after the call). The mutex is not modelled:
  every operation is one step, as under the lock.
\<close>

record 'c Handle =
  m_pool :: "nat option"
  m_connection :: "'c option"
  m_connection_index :: nat

record 'c Connection_pool =
  m_is_connected :: bool
  m_connections :: "('c option \<times> bool) list"
  m_connect_handler :: "('c \<Rightarrow> 'c) option"
  m_release_handler :: "('c \<Rightarrow> 'c) option"

text \<open>
  \<^verbatim>\<open>Handle::Handle()\<close>, by the default member initialisers of the class: no pool, no
  connection, index zero.
\<close>

definition Handle_default :: "'c Handle" where
  "Handle_default = \<lparr>m_pool = None, m_connection = None, m_connection_index = 0\<rparr>"

text \<open>
  Modelled from the spec: \<^verbatim>\<open>Handle::is_valid\<close> and \<^verbatim>\<open>Handle::pool\<close> are defined in
  \<^verbatim>\<open>connection_pool.cpp\<close>, which is not part of the sources. The spec: "\<open>is_valid()\<close> iff
  both the pool reference and the connection are present"; "\<open>pool()\<close> exposes the owning
  pool".
\<close>

definition Handle_is_valid :: "'c Handle \<Rightarrow> bool" where
  "Handle_is_valid h = (m_pool h \<noteq> None \<and> m_connection h \<noteq> None)"

definition Handle_pool :: "'c Handle \<Rightarrow> nat option" where
  "Handle_pool h = m_pool h"

text \<open>
  \<^verbatim>\<open>Handle(Handle&&) = default\<close>: each member is move-constructed from the member of
  \<open>rhs\<close>. Moving a pointer or a \<^verbatim>\<open>std::size_t\<close> copies it; moving a
  \<^verbatim>\<open>std::unique_ptr\<close> leaves the source empty. The result is the new handle and \<open>rhs\<close>
  afterwards.
\<close>

definition Handle_move_ctor :: "'c Handle \<Rightarrow> 'c Handle \<times> 'c Handle" where
  "Handle_move_ctor rhs =
     (\<lparr>m_pool = m_pool rhs, m_connection = m_connection rhs,
       m_connection_index = m_connection_index rhs\<rparr>,
      rhs\<lparr>m_connection := None\<rparr>)"

text \<open>
  \<^verbatim>\<open>Handle& operator=(Handle&&) = default\<close>: each member is move-assigned, in the order
  of declaration, on a store of handles by address. The move assignment of
  \<^verbatim>\<open>std::unique_ptr\<close> is \<^verbatim>\<open>reset(rhs.release())\<close>: it empties the source first, then
  stores what the source held.
\<close>

definition Handle_move_assign ::
  "(nat \<Rightarrow> 'c Handle) \<Rightarrow> nat \<Rightarrow> nat \<Rightarrow> (nat \<Rightarrow> 'c Handle)" where
  "Handle_move_assign st this rhs =
     (let st1 = st(this := (st this)\<lparr>m_pool := m_pool (st rhs)\<rparr>);
          c = m_connection (st1 rhs);
          st2 = st1(rhs := (st1 rhs)\<lparr>m_connection := None\<rparr>);
          st3 = st2(this := (st2 this)\<lparr>m_connection := c\<rparr>)
      in st3(this := (st3 this)\<lparr>m_connection_index := m_connection_index (st3 rhs)\<rparr>))"

text \<open>The first slot that is not busy.\<close>

fun find_free :: "('c option \<times> bool) list \<Rightarrow> nat option" where
  "find_free [] = None"
| "find_free (s # ss) = (if \<not> snd s then Some 0 else map_option Suc (find_free ss))"

text \<open>
  Modelled from the spec: \<^verbatim>\<open>Connection_pool::connection\<close> is defined in
  \<^verbatim>\<open>connection_pool.cpp\<close>, which is not part of the sources. The spec: it "scans slots
  for the first free one. If the pool is not connected, or no slot is free, returns an
  invalid Handle immediately - no blocking, no queuing. Otherwise marks the slot busy,
  moves its Connection out into a new Handle bound to that slot index, and returns it."
  \<open>this\<close> is the address of the pool; the result is the handle and the pool afterwards.
\<close>

definition connection :: "nat \<Rightarrow> 'c Connection_pool \<Rightarrow> 'c Handle \<times> 'c Connection_pool" where
  "connection this p =
     (if \<not> m_is_connected p then (Handle_default, p)
      else (case find_free (m_connections p) of
              None \<Rightarrow> (Handle_default, p)
            | Some i \<Rightarrow>
                (\<lparr>m_pool = Some this, m_connection = fst (m_connections p ! i),
                  m_connection_index = i\<rparr>,
                 p\<lparr>m_connections := (m_connections p)[i := (None, True)]\<rparr>)))"

text \<open>Calling an optional handler on a connection.\<close>

fun run_handler :: "('c \<Rightarrow> 'c) option \<Rightarrow> 'c \<Rightarrow> 'c" where
  "run_handler None c = c"
| "run_handler (Some f) c = f c"

text \<open>
  Modelled from the spec: \<^verbatim>\<open>Connection_pool::release\<close> is defined in
  \<^verbatim>\<open>connection_pool.cpp\<close>, which is not part of the sources. The spec: "idempotent; a
  no-op if the Handle is already invalid. If the pool \<open>is_connected()\<close>, runs
  \<open>release_handler\<close> on the Connection, moves it back into its originating slot, and
  marks the slot free. If the pool is not connected, the Connection is destroyed (its
  session is discarded) instead of being returned. In both cases, the Handle becomes
  invalid afterward (its pool reference and connection are cleared)". The declaration in
  \<^verbatim>\<open>connection_pool.hpp\<close> documents the effect \<^verbatim>\<open>(!handle.pool() && !handle.connection())\<close>
  with no condition, so the handle is cleared on every path; on an invalid handle nothing
  else is done, and the pool is left as it is. A handle that holds neither a pool nor a
  connection, which is what the spec calls invalid, is not changed by the clearing. An
  error of the handler is swallowed, so the handler is a function to the connection it
  leaves. A connection that is in neither the pool nor the handle afterwards has been
  destroyed. The spec names no change of a slot when the pool is not connected, and none
  of the handle's index; the model makes none. The result is the pool and the handle
  afterwards.
\<close>

definition release :: "'c Connection_pool \<Rightarrow> 'c Handle \<Rightarrow> 'c Connection_pool \<times> 'c Handle" where
  "release p h =
     (let cleared = h\<lparr>m_pool := None, m_connection := None\<rparr>
      in if \<not> Handle_is_valid h then (p, cleared)
         else if m_is_connected p
              then (p\<lparr>m_connections := (m_connections p)
                       [m_connection_index h :=
                          (map_option (run_handler (m_release_handler p)) (m_connection h),
                           False)]\<rparr>,
                    cleared)
              else (p, cleared))"

text \<open>
  The slots of a pool own their connections: a slot that is not busy holds its
  connection. Both operations above keep it so.
\<close>

definition slots_ok :: "'c Connection_pool \<Rightarrow> bool" where
  "slots_ok p = (\<forall>s\<in>set (m_connections p). \<not> snd s \<longrightarrow> fst s \<noteq> None)"

section \<open>Facts about the memory\<close>

lemma those_Some_map: "those xs = Some ys \<Longrightarrow> xs = map Some ys"
  by (induction xs arbitrary: ys) (auto split: option.splits)

lemma those_map_Some: "those (map Some ys) = Some ys"
  by (induction ys) auto

lemma load_bytes_length: "load_bytes h p n = Some bs \<Longrightarrow> length bs = n"
proof (cases p)
  case nullptr
  then show "load_bytes h p n = Some bs \<Longrightarrow> length bs = n" by simp
next
  case empty_literal
  then show "load_bytes h p n = Some bs \<Longrightarrow> length bs = n" by (auto split: if_splits)
next
  case (Ptr b i)
  assume a: "load_bytes h p n = Some bs"
  with Ptr have t: "those (take n (drop i (blocks h ! b))) = Some bs"
    and le: "i + n \<le> length (blocks h ! b)"
    by (auto split: if_splits)
  from t have "take n (drop i (blocks h ! b)) = map Some bs" by (rule those_Some_map)
  then have "length (take n (drop i (blocks h ! b))) = length bs" by simp
  with le show "length bs = n" by simp
qed

lemma load_bytes_not_null: "load_bytes h p n = Some bs \<Longrightarrow> p \<noteq> nullptr"
  by (cases p) auto

lemma load_bytes_old_block:
  "load_bytes h p n = Some bs \<Longrightarrow> p \<noteq> Ptr (length (blocks h)) j"
  by (cases p) (auto split: if_splits)

lemma load_bytes_append:
  "load_bytes h q m = Some bs \<Longrightarrow> load_bytes (h\<lparr>blocks := blocks h @ bl\<rparr>) q m = Some bs"
  by (cases q) (auto simp: nth_append split: if_splits)

lemma load_bytes_new_array:
  "load_bytes h q m = Some bs \<Longrightarrow> load_bytes (fst (new_array h n)) q m = Some bs"
  by (simp add: new_array_def load_bytes_append)

lemma load_bytes_last_block:
  "load_bytes (h\<lparr>blocks := blocks h @ [map Some xs]\<rparr>) (Ptr (length (blocks h)) 0) (length xs)
     = Some xs"
  by (simp add: those_map_Some)

lemma load_bytes_last_block_prefix:
  "load_bytes (h\<lparr>blocks := blocks h @ [map Some (xs @ ys)]\<rparr>) (Ptr (length (blocks h)) 0)
     (length xs) = Some xs"
  by (simp add: those_map_Some)

lemma load_bytes_last_block_suffix:
  "load_bytes (h\<lparr>blocks := blocks h @ [map Some (xs @ ys)]\<rparr>)
     (Ptr (length (blocks h)) (length xs)) (length ys) = Some ys"
  by (simp add: those_map_Some)

lemma overlap_fresh:
  "load_bytes h src n = Some bs \<Longrightarrow> \<not> overlap (Ptr (length (blocks h)) 0) src n"
  by (cases src) (auto split: if_splits)

lemma memcpy_fresh:
  assumes "load_bytes h src n = Some bs" and "n \<le> k"
  shows "memcpy (fst (new_array h k)) (Ptr (length (blocks h)) 0) src n =
         Some (h\<lparr>blocks := blocks h @ [map Some bs @ replicate (k - n) None]\<rparr>)"
proof -
  have len: "length bs = n" using assms(1) by (rule load_bytes_length)
  have ld: "load_bytes (fst (new_array h k)) src n = Some bs"
    using assms(1) by (rule load_bytes_new_array)
  have ov: "\<not> overlap (Ptr (length (blocks h)) 0) src n"
    using assms(1) by (rule overlap_fresh)
  show ?thesis
    using len assms(2) ov ld
    by (simp add: memcpy_def new_array_def)
qed

section \<open>The assertions of the constructors hold\<close>

lemma memory_Data_ctor_ok: "memory_Data_ctor p n f = Inr (memory_Data f n p)"
  by (auto simp add: memory_Data_ctor_def assert_invariant_def is_invariant_ok_def)

lemma empty_Data_ctor_ok: "empty_Data_ctor f = Inr (empty_Data f)"
  by (simp add: empty_Data_ctor_def assert_invariant_def is_invariant_ok_def)

lemma container_Data_ctor_ok:
  "str_data s \<noteq> nullptr \<Longrightarrow> container_Data_ctor s f = Inr (container_Data f s)"
  by (auto simp add: container_Data_ctor_def assert_invariant_def is_invariant_ok_def)

lemma Data_view_init_not_null: "sv_data (m_data (Data_view_init p n f)) \<noteq> nullptr"
  by (simp add: Data_view_init_def Data_view_default_def)

lemma Data_view_ctor_ok: "Data_view_ctor p n f = Inr (Data_view_init p n f)"
  using Data_view_init_not_null [of p n f]
  by (auto simp add: Data_view_ctor_def assert_view_def is_invariant_ok_def)

lemma Data_view_init_cstr_not_null:
  "Data_view_init_cstr h p = Inr v \<Longrightarrow> sv_data (m_data v) \<noteq> nullptr"
  by (auto simp add: Data_view_init_cstr_def Data_view_default_def
      split: if_splits option.splits)

lemma Data_view_ctor_cstr_ok:
  "Data_view_init_cstr h p = Inr v \<Longrightarrow> Data_view_ctor_cstr h p = Inr v"
  using Data_view_init_cstr_not_null [of h p v]
  by (auto simp add: Data_view_ctor_cstr_def assert_view_def is_invariant_ok_def)

section \<open>What the factories and the deep copy return\<close>

lemma Data_make_empty: "sv_size s = 0 \<Longrightarrow> Data_make h s f = Inr (h, empty_Data f)"
  by (simp add: Data_make_def empty_Data_ctor_ok)

lemma Data_make_nonempty:
  assumes "0 < sv_size s" and "load_bytes h (sv_data s) (sv_size s) = Some bs"
  shows "Data_make h s f = Inr (h\<lparr>blocks := blocks h @ [map Some (bs @ [0])]\<rparr>,
           memory_Data f (sv_size s) (Ptr (length (blocks h)) 0))"
proof -
  have len: "length bs = sv_size s" using assms(2) by (rule load_bytes_length)
  have m: "memcpy (fst (new_array h (sv_size s + 1))) (Ptr (length (blocks h)) 0)
             (sv_data s) (sv_size s) =
           Some (h\<lparr>blocks := blocks h @
                   [map Some bs @ replicate (sv_size s + 1 - sv_size s) None]\<rparr>)"
    using assms(2) by (rule memcpy_fresh) simp
  show ?thesis
    using assms(1) len m
    by (auto simp add: Data_make_def new_array_def memory_Data_ctor_ok)
qed

lemma Data_view_to_data_copy:
  assumes "load_bytes h (sv_data (m_data v)) (sv_size (m_data v)) = Some bs"
  shows "Data_view_to_data h v = Inr (h\<lparr>blocks := blocks h @ [map Some bs]\<rparr>,
           memory_Data (m_format v) (sv_size (m_data v)) (Ptr (length (blocks h)) 0))"
proof -
  have m: "memcpy (fst (new_array h (sv_size (m_data v)))) (Ptr (length (blocks h)) 0)
             (sv_data (m_data v)) (sv_size (m_data v)) =
           Some (h\<lparr>blocks := blocks h @
                   [map Some bs @ replicate (sv_size (m_data v) - sv_size (m_data v)) None]\<rparr>)"
    using assms by (rule memcpy_fresh) simp
  show ?thesis
    using m by (simp add: Data_view_to_data_def new_array_def memory_Data_ctor_ok)
qed

section \<open>Instances\<close>

lemma Data_view_move_assign_cases:
  "Data_view_move_assign st a b a = st a \<or> Data_view_move_assign st a b a = st b"
  by (auto simp add: Data_view_move_assign_def Data_view_move_ctor_def swap_view_def)

lemma Data_instance_pointers_ok: "Data_instance d \<Longrightarrow> pointers_ok d"
proof (induction rule: Data_instance.induct)
  case (view_cstr h p v)
  then show ?case by (simp add: Data_view_init_cstr_not_null)
next
  case (view_init p n f)
  show ?case by (simp add: Data_view_init_not_null)
next
  case (view_assign st a b r)
  then show ?case
    by (auto simp add: Data_view_move_assign_def Data_view_move_ctor_def swap_view_def)
qed (simp_all add: Data_view_default_def Data_view_move_ctor_def swap_view_def)

lemma pointers_ok_Data_instance: "pointers_ok d \<Longrightarrow> Data_instance d"
proof (cases d)
  case (Data_view v)
  assume "pointers_ok d"
  with Data_view have "Data_view_init (sv_data (m_data v)) (sv_size (m_data v)) (m_format v) = v"
    by (simp add: Data_view_init_def)
  with Data_view show ?thesis
    using Data_instance.view_init [of "sv_data (m_data v)" "sv_size (m_data v)" "m_format v"]
    by simp
qed (auto intro: Data_instance.intros)

lemma Data_make_instance: "Data_make h s f = Inr (h', d) \<Longrightarrow> Data_instance d"
  by (auto simp add: Data_make_def new_array_def memory_Data_ctor_ok empty_Data_ctor_ok
      split: if_splits option.splits intro: Data_instance.intros)

lemma Data_make_string_instance:
  "str_data s \<noteq> nullptr \<Longrightarrow> Data_make_string s f = Inr d \<Longrightarrow> Data_instance d"
  by (auto simp add: Data_make_string_def container_Data_ctor_ok intro: Data_instance.intros)

lemma Data_make_memory_instance: "Data_make_memory p n f = Inr d \<Longrightarrow> Data_instance d"
  by (auto simp add: Data_make_memory_def memory_Data_ctor_ok
      split: if_splits intro: Data_instance.intros)

lemma Data_view_of_Data_instance:
  "Data_view_of_Data d = Inr v \<Longrightarrow> Data_instance (Data_view v)"
  by (auto simp add: Data_view_of_Data_def Data_view_ctor_ok intro: Data_instance.intros)

lemma Data_make_no_copy_instance: "Data_make_no_copy h s f = Inr (h', d) \<Longrightarrow> Data_instance d"
  by (auto simp add: Data_make_no_copy_def Data_view_ctor_ok empty_Data_ctor_ok
      split: if_splits intro: Data_instance.intros)

lemma to_data_instance: "to_data h d = Inr (h', d') \<Longrightarrow> Data_instance d'"
proof (cases d)
  case (container_Data f s)
  assume "to_data h d = Inr (h', d')"
  with container_Data show ?thesis
    by (auto simp add: std_string_copy_def new_array_def container_Data_ctor_ok
        split: option.splits intro: Data_instance.intros)
next
  case (memory_Data f n p)
  assume "to_data h d = Inr (h', d')"
  with memory_Data show ?thesis by (auto dest: Data_make_instance)
next
  case (empty_Data f)
  assume "to_data h d = Inr (h', d')"
  with empty_Data show ?thesis
    by (auto simp add: empty_Data_ctor_ok intro: Data_instance.intros)
next
  case (Data_view v)
  assume "to_data h d = Inr (h', d')"
  with Data_view show ?thesis
    by (auto simp add: Data_view_to_data_def Let_def new_array_def memory_Data_ctor_ok
        split: option.splits intro: Data_instance.intros)
qed

section \<open>Facts about the pool\<close>

lemma find_free_None: "(find_free ss = None) = (\<forall>s\<in>set ss. snd s)"
  by (induction ss) auto

lemma find_free_Some:
  "find_free ss = Some i \<Longrightarrow>
     i < length ss \<and> \<not> snd (ss ! i) \<and> (\<forall>j<i. snd (ss ! j))"
proof (induction ss arbitrary: i)
  case Nil
  then show ?case by simp
next
  case (Cons s ss)
  show ?case
  proof (cases "snd s")
    case False
    with Cons.prems show ?thesis by simp
  next
    case True
    with Cons.prems obtain k where k: "find_free ss = Some k" and i: "i = Suc k"
      by auto
    from Cons.IH [OF k] have ih: "k < length ss" "\<not> snd (ss ! k)" "\<forall>j<k. snd (ss ! j)"
      by auto
    have "\<forall>j<Suc k. snd ((s # ss) ! j)"
    proof (intro allI impI)
      fix j assume "j < Suc k"
      then show "snd ((s # ss) ! j)" using True ih(3) by (cases j) auto
    qed
    with ih i show ?thesis by simp
  qed
qed

lemma slots_ok_update:
  assumes "slots_ok p" and "\<not> snd s \<longrightarrow> fst s \<noteq> None"
  shows "slots_ok (p\<lparr>m_connections := (m_connections p)[i := s]\<rparr>)"
proof -
  have "set ((m_connections p)[i := s]) \<subseteq> insert s (set (m_connections p))"
    by (rule set_update_subset_insert)
  with assms show ?thesis by (auto simp add: slots_ok_def)
qed

lemma connection_slots_ok: "slots_ok p \<Longrightarrow> slots_ok (snd (connection this p))"
  by (auto simp add: connection_def slots_ok_update split: option.splits)

lemma release_slots_ok: "slots_ok p \<Longrightarrow> slots_ok (fst (release p h))"
  by (auto simp add: release_def Let_def Handle_is_valid_def slots_ok_update)

section \<open>The claims about Data\<close>

text \<open>
  Claim C1. For every Data instance of every class (\<^verbatim>\<open>container_Data\<close>, \<^verbatim>\<open>memory_Data\<close>,
  \<^verbatim>\<open>empty_Data\<close>, \<^verbatim>\<open>Data_view\<close>), \<^verbatim>\<open>(size() == 0) == is_empty()\<close> holds, and whenever
  \<^verbatim>\<open>is_empty()\<close> is true, \<^verbatim>\<open>bytes()\<close> is not null; so \<^verbatim>\<open>is_invariant_ok()\<close> is true of
  every instance, and no constructor's assertion fails.
\<close>

theorem Data_instance_invariant_ok:
  "Data_instance d \<Longrightarrow>
     ((size_Data d = 0) = is_empty_Data d) \<and>
     (is_empty_Data d \<longrightarrow> bytes d \<noteq> nullptr) \<and>
     is_invariant_ok d"
proof -
  assume "Data_instance d"
  then have ok: "pointers_ok d" by (rule Data_instance_pointers_ok)
  show ?thesis
  proof (cases d)
    case (container_Data f s)
    with ok show ?thesis by (auto simp add: is_invariant_ok_def)
  next
    case (memory_Data f n p)
    then show ?thesis by (auto simp add: is_invariant_ok_def)
  next
    case (empty_Data f)
    then show ?thesis by (simp add: is_invariant_ok_def)
  next
    case (Data_view v)
    with ok show ?thesis by (auto simp add: is_invariant_ok_def)
  qed
qed

text \<open>At a view constructed from a null pointer, which is empty.\<close>

theorem Data_instance_invariant_ok_witness:
  "Data_instance (Data_view (Data_view_init nullptr 5 Format_binary)) \<and>
   size_Data (Data_view (Data_view_init nullptr 5 Format_binary)) = 0 \<and>
   is_empty_Data (Data_view (Data_view_init nullptr 5 Format_binary)) \<and>
   bytes (Data_view (Data_view_init nullptr 5 Format_binary)) = empty_literal \<and>
   is_invariant_ok (Data_view (Data_view_init nullptr 5 Format_binary))"
proof -
  have i: "Data_instance (Data_view (Data_view_init nullptr 5 Format_binary))"
    by (rule Data_instance.view_init)
  show ?thesis
    using i Data_instance_invariant_ok [OF i]
    by (simp add: Data_view_init_def Data_view_default_def)
qed

text \<open>
  Claim C5. \<^verbatim>\<open>make(span, format)\<close> with a non-empty span allocates a fresh buffer of
  \<^verbatim>\<open>span.size() + 1\<close> bytes, copies the bytes of the span into it, appends a zero byte,
  and returns a \<^verbatim>\<open>memory_Data\<close> with the given format and the size of the span. With an
  empty span it returns an \<^verbatim>\<open>empty_Data\<close> with the given format and allocates no buffer:
  the heap is as before. The span must be readable (\<open>bs\<close> are its bytes); otherwise
  \<^verbatim>\<open>std::memcpy\<close> has no defined behaviour.
\<close>

theorem Data_make_allocates_copy:
  "(sv_size s = 0 \<longrightarrow> Data_make h s f = Inr (h, empty_Data f)) \<and>
   (0 < sv_size s \<longrightarrow> load_bytes h (sv_data s) (sv_size s) = Some bs \<longrightarrow>
      (\<exists>h' p. Data_make h s f = Inr (h', memory_Data f (sv_size s) p) \<and>
         p = Ptr (length (blocks h)) 0 \<and>
         blocks h' = blocks h @ [map Some (bs @ [0])] \<and>
         length (bs @ [0]) = sv_size s + 1 \<and>
         load_bytes h' p (sv_size s) = Some bs \<and>
         load_bytes h' (ptr_add p (sv_size s)) 1 = Some [0]))"
proof -
  have e: "Data_make h s f = Inr (h, empty_Data f)" if "sv_size s = 0"
    using that by (rule Data_make_empty)
  have n: "\<exists>h' p. Data_make h s f = Inr (h', memory_Data f (sv_size s) p) \<and>
         p = Ptr (length (blocks h)) 0 \<and>
         blocks h' = blocks h @ [map Some (bs @ [0])] \<and>
         length (bs @ [0]) = sv_size s + 1 \<and>
         load_bytes h' p (sv_size s) = Some bs \<and>
         load_bytes h' (ptr_add p (sv_size s)) 1 = Some [0]"
    if pos: "0 < sv_size s" and ld: "load_bytes h (sv_data s) (sv_size s) = Some bs"
  proof -
    have len: "length bs = sv_size s" using ld by (rule load_bytes_length)
    let ?h' = "h\<lparr>blocks := blocks h @ [map Some (bs @ [0])]\<rparr>"
    let ?p = "Ptr (length (blocks h)) 0"
    have m: "Data_make h s f = Inr (?h', memory_Data f (sv_size s) ?p)"
      using pos ld by (rule Data_make_nonempty)
    have l1: "load_bytes ?h' ?p (sv_size s) = Some bs"
      using load_bytes_last_block_prefix [of h bs "[0]"] len by simp
    have l2: "load_bytes ?h' (ptr_add ?p (sv_size s)) 1 = Some [0]"
      using load_bytes_last_block_suffix [of h bs "[0]"] len by simp
    show ?thesis using m l1 l2 len by simp
  qed
  show ?thesis using e n by blast
qed

text \<open>
  At the two bytes \<^verbatim>\<open>"i!"\<close> inside a caller's block \<^verbatim>\<open>"hi!"\<close>, and at an empty span.
\<close>

theorem Data_make_allocates_copy_witness:
  "load_bytes \<lparr>blocks = [[Some 104, Some 105, Some 33]]\<rparr> (Ptr 0 1) 2 = Some [105, 33] \<and>
   Data_make \<lparr>blocks = [[Some 104, Some 105, Some 33]]\<rparr>
     \<lparr>sv_data = Ptr 0 1, sv_size = 2\<rparr> Format_text =
     Inr (\<lparr>blocks = [[Some 104, Some 105, Some 33], [Some 105, Some 33, Some 0]]\<rparr>,
          memory_Data Format_text 2 (Ptr 1 0)) \<and>
   Data_make \<lparr>blocks = [[Some 104, Some 105, Some 33]]\<rparr>
     \<lparr>sv_data = Ptr 0 1, sv_size = 0\<rparr> Format_text =
     Inr (\<lparr>blocks = [[Some 104, Some 105, Some 33]]\<rparr>, empty_Data Format_text)"
proof -
  have ld: "load_bytes \<lparr>blocks = [[Some 104, Some 105, Some 33]]\<rparr>
              (sv_data \<lparr>sv_data = Ptr 0 1, sv_size = 2\<rparr>)
              (sv_size \<lparr>sv_data = Ptr 0 1, sv_size = 2\<rparr>) = Some [105, 33]"
    by simp
  show ?thesis
    using ld
      Data_make_allocates_copy [of "\<lparr>sv_data = Ptr 0 1, sv_size = 2\<rparr>"
        "\<lparr>blocks = [[Some 104, Some 105, Some 33]]\<rparr>" Format_text "[105, 33]"]
      Data_make_allocates_copy [of "\<lparr>sv_data = Ptr 0 1, sv_size = 0\<rparr>"
        "\<lparr>blocks = [[Some 104, Some 105, Some 33]]\<rparr>" Format_text "[]"]
    by auto
qed

text \<open>
  Claim C4. For any non-empty byte span \<open>s\<close> and any format \<open>f\<close>, \<^verbatim>\<open>to_data()\<close> (the
  deep copy) on the Data produced by \<^verbatim>\<open>make(s, f)\<close> returns a Data with the same size,
  the same format and the same bytes, whose \<^verbatim>\<open>bytes()\<close> pointer is distinct from the
  original's: the two buffers are different blocks. The span must be readable.
\<close>

theorem make_then_deep_copy:
  assumes "0 < sv_size s" and "load_bytes h (sv_data s) (sv_size s) = Some bs"
  shows "\<exists>h1 d1 h2 d2.
           Data_make h s f = Inr (h1, d1) \<and> to_data h1 d1 = Inr (h2, d2) \<and>
           size_Data d2 = size_Data d1 \<and> size_Data d1 = sv_size s \<and>
           format d2 = format d1 \<and> format d1 = f \<and>
           load_bytes h2 (bytes d1) (size_Data d1) = Some bs \<and>
           load_bytes h2 (bytes d2) (size_Data d2) = Some bs \<and>
           bytes d2 \<noteq> bytes d1 \<and>
           \<not> overlap (bytes d2) (bytes d1) (sv_size s)"
proof -
  let ?n = "sv_size s"
  let ?blk = "map Some (bs @ [0])"
  let ?h1 = "h\<lparr>blocks := blocks h @ [?blk]\<rparr>"
  let ?p1 = "Ptr (length (blocks h)) 0"
  let ?d1 = "memory_Data f ?n ?p1"
  let ?h2 = "?h1\<lparr>blocks := blocks ?h1 @ [?blk]\<rparr>"
  let ?p2 = "Ptr (length (blocks ?h1)) 0"
  let ?d2 = "memory_Data f ?n ?p2"
  have len: "length bs = ?n" using assms(2) by (rule load_bytes_length)
  have m1: "Data_make h s f = Inr (?h1, ?d1)"
    using assms by (rule Data_make_nonempty)
  have l1: "load_bytes ?h1 ?p1 ?n = Some bs"
    using load_bytes_last_block_prefix [of h bs "[0]"] len by simp
  have pos': "0 < sv_size \<lparr>sv_data = ?p1, sv_size = ?n\<rparr>" using assms(1) by simp
  have l1': "load_bytes ?h1 (sv_data \<lparr>sv_data = ?p1, sv_size = ?n\<rparr>)
               (sv_size \<lparr>sv_data = ?p1, sv_size = ?n\<rparr>) = Some bs"
    using l1 by simp
  have "Data_make ?h1 \<lparr>sv_data = ?p1, sv_size = ?n\<rparr> f =
          Inr (?h1\<lparr>blocks := blocks ?h1 @ [?blk]\<rparr>,
               memory_Data f (sv_size \<lparr>sv_data = ?p1, sv_size = ?n\<rparr>) ?p2)"
    using pos' l1' by (rule Data_make_nonempty)
  then have m2: "to_data ?h1 ?d1 = Inr (?h2, ?d2)" by simp
  have l2: "load_bytes ?h2 ?p2 ?n = Some bs"
    using load_bytes_last_block_prefix [of ?h1 bs "[0]"] len by simp
  have l3: "load_bytes ?h2 ?p1 ?n = Some bs"
    using l1 by (rule load_bytes_append)
  have "Data_make h s f = Inr (?h1, ?d1) \<and> to_data ?h1 ?d1 = Inr (?h2, ?d2) \<and>
           size_Data ?d2 = size_Data ?d1 \<and> size_Data ?d1 = sv_size s \<and>
           format ?d2 = format ?d1 \<and> format ?d1 = f \<and>
           load_bytes ?h2 (bytes ?d1) (size_Data ?d1) = Some bs \<and>
           load_bytes ?h2 (bytes ?d2) (size_Data ?d2) = Some bs \<and>
           bytes ?d2 \<noteq> bytes ?d1 \<and>
           \<not> overlap (bytes ?d2) (bytes ?d1) (sv_size s)"
    using m1 m2 l2 l3 by simp
  then show ?thesis by blast
qed

theorem make_then_deep_copy_witness:
  "0 < sv_size \<lparr>sv_data = Ptr 0 1, sv_size = 2\<rparr> \<and>
   load_bytes \<lparr>blocks = [[Some 104, Some 105, Some 33]]\<rparr> (Ptr 0 1) 2 = Some [105, 33] \<and>
   (\<exists>h1 d1 h2 d2.
      Data_make \<lparr>blocks = [[Some 104, Some 105, Some 33]]\<rparr>
        \<lparr>sv_data = Ptr 0 1, sv_size = 2\<rparr> Format_binary = Inr (h1, d1) \<and>
      to_data h1 d1 = Inr (h2, d2) \<and>
      size_Data d2 = 2 \<and> size_Data d1 = 2 \<and>
      format d2 = Format_binary \<and> format d1 = Format_binary \<and>
      load_bytes h2 (bytes d1) 2 = Some [105, 33] \<and>
      load_bytes h2 (bytes d2) 2 = Some [105, 33] \<and>
      bytes d2 \<noteq> bytes d1)"
proof -
  have pos: "0 < sv_size \<lparr>sv_data = Ptr 0 1, sv_size = 2\<rparr>" by simp
  have ld: "load_bytes \<lparr>blocks = [[Some 104, Some 105, Some 33]]\<rparr>
              (sv_data \<lparr>sv_data = Ptr 0 1, sv_size = 2\<rparr>)
              (sv_size \<lparr>sv_data = Ptr 0 1, sv_size = 2\<rparr>) = Some [105, 33]"
    by simp
  obtain h1 d1 h2 d2 where
    "Data_make \<lparr>blocks = [[Some 104, Some 105, Some 33]]\<rparr>
        \<lparr>sv_data = Ptr 0 1, sv_size = 2\<rparr> Format_binary = Inr (h1, d1)"
    "to_data h1 d1 = Inr (h2, d2)"
    "size_Data d2 = size_Data d1" "size_Data d1 = 2"
    "format d2 = format d1" "format d1 = Format_binary"
    "load_bytes h2 (bytes d1) (size_Data d1) = Some [105, 33]"
    "load_bytes h2 (bytes d2) (size_Data d2) = Some [105, 33]"
    "bytes d2 \<noteq> bytes d1"
    using make_then_deep_copy [OF pos ld, of Format_binary] by auto
  then show ?thesis using pos ld by auto
qed

text \<open>
  Claim C6. \<^verbatim>\<open>make_no_copy(span, format)\<close> with a non-empty span returns a \<^verbatim>\<open>Data_view\<close>
  whose \<^verbatim>\<open>bytes()\<close> is exactly the pointer of the span and whose \<^verbatim>\<open>size()\<close> and
  \<^verbatim>\<open>format()\<close> are the given ones; no byte is copied, the heap is as before. With an empty
  span it returns an \<^verbatim>\<open>empty_Data\<close> with the given format. A non-empty span has a pointer
  that is not null: a \<^verbatim>\<open>std::string_view\<close> over a positive number of bytes at the null
  pointer does not exist.
\<close>

theorem Data_make_no_copy_aliases:
  "(sv_size s = 0 \<longrightarrow> Data_make_no_copy h s f = Inr (h, empty_Data f)) \<and>
   (0 < sv_size s \<longrightarrow> sv_data s \<noteq> nullptr \<longrightarrow>
      (\<exists>v. Data_make_no_copy h s f = Inr (h, Data_view v) \<and>
           bytes (Data_view v) = sv_data s \<and>
           size_Data (Data_view v) = sv_size s \<and>
           format (Data_view v) = f))"
  by (simp add: Data_make_no_copy_def empty_Data_ctor_ok Data_view_ctor_ok Data_view_init_def)

theorem Data_make_no_copy_aliases_witness:
  "0 < sv_size \<lparr>sv_data = Ptr 0 0, sv_size = 2\<rparr> \<and> Ptr 0 0 \<noteq> nullptr \<and>
   Data_make_no_copy \<lparr>blocks = [[Some 104, Some 105]]\<rparr> \<lparr>sv_data = Ptr 0 0, sv_size = 0\<rparr>
     Format_binary = Inr (\<lparr>blocks = [[Some 104, Some 105]]\<rparr>, empty_Data Format_binary) \<and>
   (\<exists>v. Data_make_no_copy \<lparr>blocks = [[Some 104, Some 105]]\<rparr> \<lparr>sv_data = Ptr 0 0, sv_size = 2\<rparr>
          Format_binary = Inr (\<lparr>blocks = [[Some 104, Some 105]]\<rparr>, Data_view v) \<and>
        bytes (Data_view v) = Ptr 0 0 \<and> size_Data (Data_view v) = 2 \<and>
        format (Data_view v) = Format_binary)"
  using
    Data_make_no_copy_aliases [of "\<lparr>sv_data = Ptr 0 0, sv_size = 2\<rparr>"
      "\<lparr>blocks = [[Some 104, Some 105]]\<rparr>" Format_binary]
    Data_make_no_copy_aliases [of "\<lparr>sv_data = Ptr 0 0, sv_size = 0\<rparr>"
      "\<lparr>blocks = [[Some 104, Some 105]]\<rparr>" Format_binary]
  by simp

text \<open>
  Claim C7 says that move construction and move assignment of a \<^verbatim>\<open>Data_view\<close> reset the
  source to the state of a default-constructed view, with the sentinel format and zero
  length. The move constructor writes \<^verbatim>\<open>rhs.format_\<close> only: a view of three bytes still
  has size three after it was moved from, and is not in the default state.
\<close>

theorem Data_view_moved_from_keeps_size:
  "size_Data (Data_view (snd (Data_view_move_ctor
      \<lparr>m_format = Format_text, m_data = \<lparr>sv_data = Ptr 0 0, sv_size = 3\<rparr>\<rparr>))) = 3 \<and>
   sv_size (m_data (snd (Data_view_move_ctor
      \<lparr>m_format = Format_text, m_data = \<lparr>sv_data = Ptr 0 0, sv_size = 3\<rparr>\<rparr>))) = 3 \<and>
   snd (Data_view_move_ctor
      \<lparr>m_format = Format_text, m_data = \<lparr>sv_data = Ptr 0 0, sv_size = 3\<rparr>\<rparr>)
     \<noteq> Data_view_default \<and>
   size_Data (Data_view Data_view_default) = 0"
  by (simp add: Data_view_move_ctor_def Data_view_default_def)

text \<open>
  Claim C7, amended. Move construction, and move assignment from another object, transfer
  the borrowed bytes, the size and the format to the destination, and set the format of
  the source to the invalid sentinel \<^verbatim>\<open>Format{-1}\<close>, the format of a default-constructed
  view. The length of the source is not reset: the source keeps its pointer and its size.
\<close>

theorem Data_view_move_transfers:
  "bytes (Data_view (fst (Data_view_move_ctor rhs))) = bytes (Data_view rhs) \<and>
   size_Data (Data_view (fst (Data_view_move_ctor rhs))) = size_Data (Data_view rhs) \<and>
   format (Data_view (fst (Data_view_move_ctor rhs))) = format (Data_view rhs) \<and>
   format (Data_view (snd (Data_view_move_ctor rhs))) = - 1 \<and>
   format (Data_view (snd (Data_view_move_ctor rhs))) = format (Data_view Data_view_default) \<and>
   m_data (snd (Data_view_move_ctor rhs)) = m_data rhs \<and>
   (this \<noteq> r \<longrightarrow>
      bytes (Data_view (Data_view_move_assign st this r this)) = bytes (Data_view (st r)) \<and>
      size_Data (Data_view (Data_view_move_assign st this r this)) = size_Data (Data_view (st r)) \<and>
      format (Data_view (Data_view_move_assign st this r this)) = format (Data_view (st r)) \<and>
      format (Data_view (Data_view_move_assign st this r r)) = - 1 \<and>
      m_data (Data_view_move_assign st this r r) = m_data (st r))"
  by (simp add: Data_view_move_ctor_def Data_view_move_assign_def swap_view_def
      Data_view_default_def)

text \<open>At a store with a view of three bytes at address 1, assigned to the object at 0.\<close>

theorem Data_view_move_transfers_witness:
  "(0::nat) \<noteq> 1 \<and>
   Data_view_move_assign
     (\<lambda>a. if a = 1 then \<lparr>m_format = Format_binary, m_data = \<lparr>sv_data = Ptr 0 0, sv_size = 3\<rparr>\<rparr>
          else Data_view_default) 0 1 0 =
     \<lparr>m_format = Format_binary, m_data = \<lparr>sv_data = Ptr 0 0, sv_size = 3\<rparr>\<rparr> \<and>
   m_format (Data_view_move_assign
     (\<lambda>a. if a = 1 then \<lparr>m_format = Format_binary, m_data = \<lparr>sv_data = Ptr 0 0, sv_size = 3\<rparr>\<rparr>
          else Data_view_default) 0 1 1) = - 1"
proof -
  have ne: "(0::nat) \<noteq> 1" by simp
  show ?thesis
    using ne
      Data_view_move_transfers
        [of "\<lparr>m_format = Format_binary, m_data = \<lparr>sv_data = Ptr 0 0, sv_size = 3\<rparr>\<rparr>" 0 1
          "\<lambda>a. if a = 1
               then \<lparr>m_format = Format_binary, m_data = \<lparr>sv_data = Ptr 0 0, sv_size = 3\<rparr>\<rparr>
               else Data_view_default"]
    by (simp add: Data_view_move_assign_def Data_view_move_ctor_def swap_view_def)
qed

text \<open>
  Claim C8. \<^verbatim>\<open>Data_view::to_data()\<close> always allocates fresh owning storage and never
  returns the view or another view: it returns a \<^verbatim>\<open>memory_Data\<close> that holds a newly
  allocated copy of exactly \<^verbatim>\<open>size()\<close> bytes, with the same format and size. No zero
  byte is appended: the new block is the copied bytes and nothing more. For a view of
  length zero the result is still a \<^verbatim>\<open>memory_Data\<close>, not an \<^verbatim>\<open>empty_Data\<close>, and its
  \<^verbatim>\<open>bytes()\<close> is not null. The bytes the view borrows must be readable.
\<close>

theorem Data_view_to_data_allocates:
  assumes "load_bytes h (sv_data (m_data v)) (sv_size (m_data v)) = Some bs"
  shows "\<exists>h' p. to_data h (Data_view v) =
             Inr (h', memory_Data (m_format v) (sv_size (m_data v)) p) \<and>
           p = Ptr (length (blocks h)) 0 \<and>
           blocks h' = blocks h @ [map Some bs] \<and>
           length bs = size_Data (Data_view v) \<and>
           load_bytes h' p (sv_size (m_data v)) = Some bs \<and>
           bytes (memory_Data (m_format v) (sv_size (m_data v)) p) = p \<and>
           p \<noteq> nullptr \<and> p \<noteq> bytes (Data_view v)"
proof -
  let ?n = "sv_size (m_data v)"
  let ?h' = "h\<lparr>blocks := blocks h @ [map Some bs]\<rparr>"
  let ?p = "Ptr (length (blocks h)) 0"
  have len: "length bs = ?n" using assms by (rule load_bytes_length)
  have c: "to_data h (Data_view v) = Inr (?h', memory_Data (m_format v) ?n ?p)"
    using assms by (simp add: Data_view_to_data_copy)
  have l: "load_bytes ?h' ?p ?n = Some bs"
    using load_bytes_last_block [of h bs] len by simp
  have ne: "sv_data (m_data v) \<noteq> ?p"
    using assms by (rule load_bytes_old_block)
  show ?thesis using c l len ne by auto
qed

text \<open>At the default view, which has length zero, on a heap with no block.\<close>

theorem Data_view_to_data_allocates_witness:
  "load_bytes \<lparr>blocks = []\<rparr> (sv_data (m_data Data_view_default))
     (sv_size (m_data Data_view_default)) = Some [] \<and>
   to_data \<lparr>blocks = []\<rparr> (Data_view Data_view_default) =
     Inr (\<lparr>blocks = [[]]\<rparr>, memory_Data (- 1) 0 (Ptr 0 0)) \<and>
   bytes (memory_Data (- 1) 0 (Ptr 0 0)) = Ptr 0 0"
proof -
  have ld: "load_bytes \<lparr>blocks = []\<rparr> (sv_data (m_data Data_view_default))
     (sv_size (m_data Data_view_default)) = Some []"
    by (simp add: Data_view_default_def)
  show ?thesis
    using ld Data_view_to_data_allocates [OF ld]
    by (auto simp add: Data_view_default_def)
qed

text \<open>
  Claim C9. Constructing a \<^verbatim>\<open>Data_view\<close> from a null byte pointer, with either
  constructor, yields an invalid, empty view: the format is the invalid sentinel and the
  length is zero. The assertion of the constructor holds, and \<^verbatim>\<open>size()\<close>, \<^verbatim>\<open>bytes()\<close> and
  \<^verbatim>\<open>is_invariant_ok()\<close> on such a view read its members only: \<^verbatim>\<open>bytes()\<close> is the address
  of the empty literal and \<^verbatim>\<open>is_invariant_ok()\<close> is true.
\<close>

theorem Data_view_null_source:
  "Data_view_ctor_cstr h nullptr = Inr Data_view_default \<and>
   Data_view_ctor nullptr n f = Inr Data_view_default \<and>
   format (Data_view Data_view_default) = - 1 \<and>
   size_Data (Data_view Data_view_default) = 0 \<and>
   is_empty_Data (Data_view Data_view_default) \<and>
   bytes (Data_view Data_view_default) = empty_literal \<and>
   is_invariant_ok (Data_view Data_view_default)"
  by (simp add: Data_view_ctor_cstr_def Data_view_init_cstr_def Data_view_ctor_def
      Data_view_init_def assert_view_def is_invariant_ok_def Data_view_default_def)

theorem Data_view_null_source_witness:
  "Data_view_ctor_cstr \<lparr>blocks = []\<rparr> nullptr = Inr Data_view_default \<and>
   Data_view_ctor nullptr 7 Format_binary = Inr Data_view_default \<and>
   is_invariant_ok (Data_view Data_view_default)"
  using Data_view_null_source [of "\<lparr>blocks = []\<rparr>" 7 Format_binary]
  by simp

section \<open>The claims about the connection pool\<close>

text \<open>
  Claim C2. \<^verbatim>\<open>Connection_pool::connection()\<close> never waits and never reports an error:
  it is a function to a handle and a pool, with no other outcome. If the pool is not
  connected, or no slot is free, the handle is invalid and the pool is as before.
  Otherwise the first free slot is marked busy, its connection is moved into a new valid
  handle bound to the index of the slot and to this pool, and that handle is returned.
  The slots own their connections (\<open>slots_ok\<close>).
\<close>

theorem connection_try_or_invalid:
  assumes "slots_ok p"
  shows "((\<not> m_is_connected p \<or> (\<forall>s\<in>set (m_connections p). snd s)) \<longrightarrow>
            connection this p = (Handle_default, p) \<and>
            \<not> Handle_is_valid (fst (connection this p))) \<and>
         (m_is_connected p \<longrightarrow> (\<exists>s\<in>set (m_connections p). \<not> snd s) \<longrightarrow>
            (\<exists>i c. i < length (m_connections p) \<and>
               m_connections p ! i = (Some c, False) \<and>
               (\<forall>j<i. snd (m_connections p ! j)) \<and>
               connection this p =
                 (\<lparr>m_pool = Some this, m_connection = Some c, m_connection_index = i\<rparr>,
                  p\<lparr>m_connections := (m_connections p)[i := (None, True)]\<rparr>) \<and>
               Handle_is_valid (fst (connection this p)) \<and>
               Handle_pool (fst (connection this p)) = Some this))"
proof -
  have none: "connection this p = (Handle_default, p) \<and>
            \<not> Handle_is_valid (fst (connection this p))"
    if "\<not> m_is_connected p \<or> (\<forall>s\<in>set (m_connections p). snd s)"
  proof -
    from that have "connection this p = (Handle_default, p)"
      using find_free_None [of "m_connections p"] by (auto simp add: connection_def)
    then show ?thesis by (simp add: Handle_is_valid_def Handle_default_def)
  qed
  have some: "\<exists>i c. i < length (m_connections p) \<and>
               m_connections p ! i = (Some c, False) \<and>
               (\<forall>j<i. snd (m_connections p ! j)) \<and>
               connection this p =
                 (\<lparr>m_pool = Some this, m_connection = Some c, m_connection_index = i\<rparr>,
                  p\<lparr>m_connections := (m_connections p)[i := (None, True)]\<rparr>) \<and>
               Handle_is_valid (fst (connection this p)) \<and>
               Handle_pool (fst (connection this p)) = Some this"
    if con: "m_is_connected p" and free: "\<exists>s\<in>set (m_connections p). \<not> snd s"
  proof -
    from free have "find_free (m_connections p) \<noteq> None"
      using find_free_None [of "m_connections p"] by auto
    then obtain i where i: "find_free (m_connections p) = Some i" by auto
    from find_free_Some [OF i] have lt: "i < length (m_connections p)"
      and nb: "\<not> snd (m_connections p ! i)" and first: "\<forall>j<i. snd (m_connections p ! j)"
      by auto
    from lt have "m_connections p ! i \<in> set (m_connections p)" by simp
    with assms nb have "fst (m_connections p ! i) \<noteq> None" by (auto simp add: slots_ok_def)
    then obtain c where c: "fst (m_connections p ! i) = Some c" by auto
    with nb have slot: "m_connections p ! i = (Some c, False)"
      by (cases "m_connections p ! i") auto
    have r: "connection this p =
               (\<lparr>m_pool = Some this, m_connection = Some c, m_connection_index = i\<rparr>,
                p\<lparr>m_connections := (m_connections p)[i := (None, True)]\<rparr>)"
      using con i c by (simp add: connection_def)
    have v: "Handle_is_valid (fst (connection this p)) \<and>
             Handle_pool (fst (connection this p)) = Some this"
      using r by (simp add: Handle_is_valid_def Handle_pool_def)
    show ?thesis using lt slot first r v by blast
  qed
  show ?thesis using none some by blast
qed

text \<open>
  At a connected pool of two slots at address 9, the first busy, the second free with the
  connection 42.
\<close>

theorem connection_try_or_invalid_witness:
  "slots_ok \<lparr>m_is_connected = True, m_connections = [(None, True), (Some (42::nat), False)],
             m_connect_handler = None, m_release_handler = None\<rparr> \<and>
   (\<exists>i c. connection 9 \<lparr>m_is_connected = True,
               m_connections = [(None, True), (Some (42::nat), False)],
               m_connect_handler = None, m_release_handler = None\<rparr> =
      (\<lparr>m_pool = Some 9, m_connection = Some c, m_connection_index = i\<rparr>,
       \<lparr>m_is_connected = True,
          m_connections = [(None, True), (Some (42::nat), False)][i := (None, True)],
          m_connect_handler = None, m_release_handler = None\<rparr>)) \<and>
   Handle_is_valid (fst (connection 9 \<lparr>m_is_connected = True,
               m_connections = [(None, True), (Some (42::nat), False)],
               m_connect_handler = None, m_release_handler = None\<rparr>)) \<and>
   connection 9 \<lparr>m_is_connected = True, m_connections = [(None, True), (Some (42::nat), False)],
             m_connect_handler = None, m_release_handler = None\<rparr> =
     (\<lparr>m_pool = Some 9, m_connection = Some 42, m_connection_index = 1\<rparr>,
      \<lparr>m_is_connected = True, m_connections = [(None, True), (None, True)],
        m_connect_handler = None, m_release_handler = None\<rparr>)"
proof -
  let ?p = "\<lparr>m_is_connected = True, m_connections = [(None, True), (Some (42::nat), False)],
             m_connect_handler = None, m_release_handler = None\<rparr>"
  have ok: "slots_ok ?p" by (simp add: slots_ok_def)
  have con: "m_is_connected ?p" by simp
  have free: "\<exists>s\<in>set (m_connections ?p). \<not> snd s" by simp
  have ex: "\<exists>i c. i < length (m_connections ?p) \<and>
               m_connections ?p ! i = (Some c, False) \<and>
               (\<forall>j<i. snd (m_connections ?p ! j)) \<and>
               connection 9 ?p =
                 (\<lparr>m_pool = Some 9, m_connection = Some c, m_connection_index = i\<rparr>,
                  ?p\<lparr>m_connections := (m_connections ?p)[i := (None, True)]\<rparr>) \<and>
               Handle_is_valid (fst (connection 9 ?p)) \<and>
               Handle_pool (fst (connection 9 ?p)) = Some 9"
    using connection_try_or_invalid [OF ok, of 9] con free by blast
  have ev: "connection 9 ?p =
     (\<lparr>m_pool = Some 9, m_connection = Some 42, m_connection_index = 1\<rparr>,
      \<lparr>m_is_connected = True, m_connections = [(None, True), (None, True)],
        m_connect_handler = None, m_release_handler = None\<rparr>)"
    by (simp add: connection_def)
  from ex obtain i c where
    "connection 9 ?p =
       (\<lparr>m_pool = Some 9, m_connection = Some c, m_connection_index = i\<rparr>,
        ?p\<lparr>m_connections := (m_connections ?p)[i := (None, True)]\<rparr>)"
    and "Handle_is_valid (fst (connection 9 ?p))"
    by blast
  then show ?thesis using ok ev by auto
qed




text \<open>
  Claim C10. After move construction or move assignment from a valid handle, the handle
  that was moved from holds no connection and is invalid, and its pool pointer is
  unchanged: \<^verbatim>\<open>pool()\<close> still returns the original pool, which is not null. So an invalid
  handle can still expose a pool. The assignment is to another handle.
\<close>

theorem Handle_moved_from_keeps_pool:
  "(Handle_is_valid rhs \<longrightarrow>
      m_connection (snd (Handle_move_ctor rhs)) = None \<and>
      \<not> Handle_is_valid (snd (Handle_move_ctor rhs)) \<and>
      Handle_pool (snd (Handle_move_ctor rhs)) = Handle_pool rhs \<and>
      Handle_pool (snd (Handle_move_ctor rhs)) \<noteq> None) \<and>
   (this \<noteq> r \<longrightarrow> Handle_is_valid (st r) \<longrightarrow>
      m_connection (Handle_move_assign st this r r) = None \<and>
      \<not> Handle_is_valid (Handle_move_assign st this r r) \<and>
      Handle_pool (Handle_move_assign st this r r) = Handle_pool (st r) \<and>
      Handle_pool (Handle_move_assign st this r r) \<noteq> None)"
  by (simp add: Handle_move_ctor_def Handle_move_assign_def Handle_is_valid_def
      Handle_pool_def Let_def)

text \<open>At the valid handle of pool 9, at address 1 of the store, assigned to address 0.\<close>

theorem Handle_moved_from_keeps_pool_witness:
  "Handle_is_valid \<lparr>m_pool = Some 9, m_connection = Some (42::nat), m_connection_index = 1\<rparr> \<and>
   (0::nat) \<noteq> 1 \<and>
   snd (Handle_move_ctor
     \<lparr>m_pool = Some 9, m_connection = Some (42::nat), m_connection_index = 1\<rparr>) =
     \<lparr>m_pool = Some 9, m_connection = None, m_connection_index = 1\<rparr> \<and>
   Handle_pool (Handle_move_assign
     (\<lambda>a. if a = 1
          then \<lparr>m_pool = Some 9, m_connection = Some (42::nat), m_connection_index = 1\<rparr>
          else Handle_default) 0 1 1) = Some 9 \<and>
   m_connection (Handle_move_assign
     (\<lambda>a. if a = 1
          then \<lparr>m_pool = Some 9, m_connection = Some (42::nat), m_connection_index = 1\<rparr>
          else Handle_default) 0 1 1) = None"
proof -
  let ?h = "\<lparr>m_pool = Some 9, m_connection = Some (42::nat), m_connection_index = 1\<rparr>"
  let ?st = "\<lambda>a::nat. if a = 1 then ?h else Handle_default"
  have v: "Handle_is_valid ?h" by (simp add: Handle_is_valid_def)
  have ne: "(0::nat) \<noteq> 1" by simp
  have v': "Handle_is_valid (?st 1)" using v by simp
  have e: "snd (Handle_move_ctor ?h) =
     \<lparr>m_pool = Some 9, m_connection = None, m_connection_index = 1\<rparr>"
    by (simp add: Handle_move_ctor_def)
  show ?thesis
    using v ne e v' Handle_moved_from_keeps_pool [of ?h 0 1 ?st]
    by (simp add: Handle_pool_def)
qed

end
